theory Spec2Isabelle
  imports Main "HOL-Library.Sublist"
begin

section \<open>KPI detection flow (src/ai/flows/kpi-detection.ts)\<close>

text \<open>
  The module wraps one call to an external prompt endpoint in a bounded retry loop with
  exponential backoff. The external endpoint is opaque: it is modelled by the sequence of
  outcomes its successive calls produce. Everything the handler does beyond returning a value
  (calling the endpoint, logging a warning, sleeping) is recorded in a trace of events.
\<close>

subsection \<open>JavaScript values\<close>

text \<open>
  The catch clause binds \<^verbatim>\<open>error: any\<close>, and survey records hold arbitrary values
  (\<^verbatim>\<open>z.record(z.any())\<close>), so thrown values and record fields are plain JavaScript data:
  \<^verbatim>\<open>undefined\<close>, \<^verbatim>\<open>null\<close>, booleans, numbers (integer valued here; no number is
  computed with), strings, arrays and objects given by their properties. A property list is
  read front to back, the first entry of a key being the property's value. Functions are not
  data, so no object of this type carries a method of its own.
\<close>

datatype js_value =
    JUndefined
  | JNull
  | JBool bool
  | JNum int
  | JStr string
  | JArr "js_value list"
  | JObj "(string \<times> js_value) list"

text \<open>
  Exceptions seen by the caller of the flow: a value the external call threw, rethrown as it
  is (line 85); a \<^verbatim>\<open>TypeError\<close> raised by the runtime while evaluating an expression;
  an \<^verbatim>\<open>Error\<close> created by \<^verbatim>\<open>new Error(msg)\<close> (line 90); the validation error with
  which the framework rejects a flow result that does not fit the flow's output schema.
\<close>

datatype js_exn =
    Thrown js_value
  | TypeError
  | NewError string
  | ValidationError

subsection \<open>Data model\<close>

type_synonym survey_record = "(string \<times> js_value) list"

record DetectKpisInput =
  surveyData :: "survey_record list"
  language :: "string option"

record DetectKpisOutput =
  kpis :: "string list"
  explanation :: string

subsection \<open>The error classification of line 78\<close>

text \<open>
  \<^verbatim>\<open>error.message\<close>: reading a property of \<^verbatim>\<open>undefined\<close> or \<^verbatim>\<open>null\<close> throws
  a TypeError; an object yields the property, or \<^verbatim>\<open>undefined\<close> when it has none of that
  name; a boolean, number, string or array has no property \<^verbatim>\<open>message\<close>.
\<close>

fun get_message :: "js_value \<Rightarrow> js_exn + js_value" where
  "get_message JUndefined = Inl TypeError"
| "get_message JNull = Inl TypeError"
| "get_message (JObj props) =
     (case map_of props ''message'' of None \<Rightarrow> Inr JUndefined | Some v \<Rightarrow> Inr v)"
| "get_message _ = Inr JUndefined"

text \<open>
  \<^verbatim>\<open>m.includes(s)\<close> for a string \<^verbatim>\<open>s\<close>: on a string, \<^verbatim>\<open>String.prototype.includes\<close>
  tests whether \<^verbatim>\<open>s\<close> occurs in \<^verbatim>\<open>m\<close> as a contiguous substring; on an array,
  \<^verbatim>\<open>Array.prototype.includes\<close> tests whether \<^verbatim>\<open>s\<close> is one of the elements; on
  \<^verbatim>\<open>undefined\<close> and \<^verbatim>\<open>null\<close> the property read throws, and on a boolean, a number
  or a plain object \<^verbatim>\<open>includes\<close> is \<^verbatim>\<open>undefined\<close> and calling it throws: a TypeError
  in each case. (A needle of ASCII characters occurs in a string as code units exactly when it
  occurs in its bytes.)
\<close>

fun js_includes :: "js_value \<Rightarrow> string \<Rightarrow> js_exn + bool" where
  "js_includes (JStr m) s = Inr (sublist s m)"
| "js_includes (JArr xs) s = Inr (JStr s \<in> set xs)"
| "js_includes _ s = Inl TypeError"

definition is_rate_limit :: "js_value \<Rightarrow> js_exn + bool" where
  "is_rate_limit error =
     (case get_message error of
        Inl exn \<Rightarrow> Inl exn
      | Inr m \<Rightarrow> js_includes m ''429 Too Many Requests'')"

subsection \<open>The warning of line 79\<close>

text \<open>
  \<^verbatim>\<open>${delay / 1000}\<close> prints the quotient as JavaScript prints a number: the integer part
  in decimal and, when the division leaves a remainder, a point and the remainder's three
  digits without trailing zeros. (Exact for delays below \<open>10 ^ 15\<close>; the flow only ever holds
  2000, 4000, 8000 and 16000.)
\<close>

definition digit_char :: "nat \<Rightarrow> char" where
  "digit_char d = char_of (48 + d)"

function decimal :: "nat \<Rightarrow> string" where
  "decimal n = (if n < 10 then [digit_char n] else decimal (n div 10) @ [digit_char (n mod 10)])"
  by pat_completeness auto
termination
  by (relation "measure (\<lambda>n. n)") auto

definition fraction3 :: "nat \<Rightarrow> string" where
  "fraction3 r =
     rev (dropWhile (\<lambda>c. c = CHR ''0'')
            (rev [digit_char (r div 100), digit_char (r div 10 mod 10), digit_char (r mod 10)]))"

definition seconds_text :: "nat \<Rightarrow> string" where
  "seconds_text delay =
     decimal (delay div 1000) @
     (if delay mod 1000 = 0 then [] else CHR ''.'' # fraction3 (delay mod 1000))"

definition warn_message :: "nat \<Rightarrow> string" where
  "warn_message delay =
     ''Rate limit exceeded. Retrying in '' @ seconds_text delay @ '' seconds...''"

subsection \<open>The retry loop of lines 68 to 91\<close>

text \<open>
  One call of \<^verbatim>\<open>detectKpisPrompt(input)\<close> either resolves, with a response whose
  \<^verbatim>\<open>output\<close> is the parsed result or \<^verbatim>\<open>null\<close>, or rejects with a thrown value. The
  external world is the function giving the outcome of the first, second, ... call.
\<close>

datatype outcome =
    Resolves "DetectKpisOutput option"
  | Rejects js_value

datatype event =
    Call DetectKpisInput
  | Warn string
  | Sleep nat

datatype completion =
    Returned "DetectKpisOutput option"
  | Threw js_exn

record RetryState =
  retries :: nat
  delay :: nat

definition maxRetries :: nat where
  "maxRetries = 3"

definition exhausted_message :: string where
  "exhausted_message = ''Failed to detect KPIs after multiple retries due to rate limiting.''"

text \<open>
  \<open>flow_loop ext input n st\<close> runs the \<^verbatim>\<open>while\<close> loop of the handler from the state
  \<open>st\<close> of its local variables, \<open>n\<close> external calls having been made before; it
  yields the events in the order they happen and how the handler completes.
  \<^verbatim>\<open>return output!\<close> returns the output as it is: the non-null assertion is erased at
  compile time. \<^verbatim>\<open>await new Promise(resolve => setTimeout(resolve, delay))\<close> is the event
  \<open>Sleep delay\<close>. The delay is at most 16000 in any run, so its doubling is exact.
\<close>

function flow_loop ::
  "(nat \<Rightarrow> outcome) \<Rightarrow> DetectKpisInput \<Rightarrow> nat \<Rightarrow> RetryState \<Rightarrow> event list \<times> completion" where
  "flow_loop ext input n st =
     (if retries st < maxRetries then
        (case ext n of
           Resolves output \<Rightarrow> ([Call input], Returned output)
         | Rejects error \<Rightarrow>
             (case is_rate_limit error of
                Inl exn \<Rightarrow> ([Call input], Threw exn)
              | Inr rate_limited \<Rightarrow>
                  if rate_limited then
                    (case flow_loop ext input (Suc n)
                            (st\<lparr>delay := delay st * 2, retries := retries st + 1\<rparr>) of
                       (evs, c) \<Rightarrow>
                         (Call input # Warn (warn_message (delay st)) # Sleep (delay st) # evs, c))
                  else ([Call input], Threw (Thrown error))))
      else ([], Threw (NewError exhausted_message)))"
  by pat_completeness auto
termination
  by (relation "measure (\<lambda>(ext, input, n, st). maxRetries - retries st)") auto

text \<open>
  The handler (the \<^verbatim>\<open>async input => ...\<close> of lines 68 to 91) starts the loop with
  \<^verbatim>\<open>retries = 0\<close> and \<^verbatim>\<open>delay = 2000\<close>.
\<close>

definition detectKpisFlow_handler ::
  "(nat \<Rightarrow> outcome) \<Rightarrow> DetectKpisInput \<Rightarrow> event list \<times> completion" where
  "detectKpisFlow_handler ext input = flow_loop ext input 0 \<lparr>retries = 0, delay = 2000\<rparr>"

text \<open>
  \<^verbatim>\<open>ai.defineFlow\<close> registers the handler under \<^verbatim>\<open>outputSchema: DetectKpisOutputSchema\<close>
  (lines 59 to 67): what the handler returns is checked against the schema before the flow
  resolves. A missing output (\<^verbatim>\<open>null\<close>) is not an object with \<^verbatim>\<open>kpis\<close> and
  \<^verbatim>\<open>explanation\<close>, so the flow rejects with a validation error; an output of the
  declared shape passes unchanged; what the handler throws is thrown on. The input schema
  needs no check here: an input is well formed by its type.
\<close>

fun outputSchema_check :: "completion \<Rightarrow> completion" where
  "outputSchema_check (Returned None) = Threw ValidationError"
| "outputSchema_check (Returned (Some output)) = Returned (Some output)"
| "outputSchema_check (Threw exn) = Threw exn"

definition detectKpisFlow :: "(nat \<Rightarrow> outcome) \<Rightarrow> DetectKpisInput \<Rightarrow> event list \<times> completion" where
  "detectKpisFlow ext input =
     (case detectKpisFlow_handler ext input of (evs, c) \<Rightarrow> (evs, outputSchema_check c))"

text \<open>\<^verbatim>\<open>detectKpis\<close> (lines 25 to 27) returns what the flow returns.\<close>

definition detectKpis :: "(nat \<Rightarrow> outcome) \<Rightarrow> DetectKpisInput \<Rightarrow> event list \<times> completion" where
  "detectKpis ext input = detectKpisFlow ext input"

text \<open>Projections of a trace: the inputs passed to the external call, the waits, the warnings.\<close>

fun calls :: "event list \<Rightarrow> DetectKpisInput list" where
  "calls [] = []"
| "calls (Call i # evs) = i # calls evs"
| "calls (_ # evs) = calls evs"

fun sleeps :: "event list \<Rightarrow> nat list" where
  "sleeps [] = []"
| "sleeps (Sleep d # evs) = d # sleeps evs"
| "sleeps (_ # evs) = sleeps evs"

fun warns :: "event list \<Rightarrow> string list" where
  "warns [] = []"
| "warns (Warn s # evs) = s # warns evs"
| "warns (_ # evs) = warns evs"

subsection \<open>The prompt template of lines 43 to 56\<close>

text \<open>
  The prompt is a Handlebars template over the two fields of the input. It is given here as
  the engine parses it: literal text, \<^verbatim>\<open>{{x}}\<close> (the value of \<^verbatim>\<open>x\<close>, passed through
  the engine's escaping), \<^verbatim>\<open>{{{x}}}\<close> (the value, never escaped) and the block
  \<^verbatim>\<open>{{#if x}} ... {{/if}}\<close>. The tags \<^verbatim>\<open>{{#if language}}\<close> and \<^verbatim>\<open>{{/if}}\<close> stand alone
  on their lines, and the engine drops such a line (its indentation and its line break) from
  the text; every other character is the template's own.

  The block \<^verbatim>\<open>{{#if x}}\<close> takes its body when \<^verbatim>\<open>x\<close> is neither absent, nor the empty
  string, nor an empty array. A value is written into the text as JavaScript converts it to a
  string. For the array \<^verbatim>\<open>surveyData\<close> that is the conversion of each record, joined by
  commas; a record is a plain object, and its conversion calls its \<^verbatim>\<open>toString\<close>: the
  inherited one gives \<^verbatim>\<open>[object Object]\<close>, whatever the record holds, and a record with a
  column named \<^verbatim>\<open>toString\<close> has data in the method's place, so the conversion throws a
  TypeError and no prompt is produced (the call of \<^verbatim>\<open>detectKpisPrompt\<close> then rejects
  before anything is sent). The template uses no \<^verbatim>\<open>json\<close> helper.
  The escaping \<open>esc\<close> applied to a \<^verbatim>\<open>{{x}}\<close> value is set by the engine's configuration
  and is a parameter (the identity when escaping is switched off).
\<close>

datatype template_var = VLanguage | VSurveyData

datatype segment =
    Text string
  | Escaped template_var
  | Raw template_var
  | IfBlock template_var "segment list"

definition NL :: string where
  "NL = [CHR 0x0A]"

definition preamble_text :: string where
  "preamble_text =
     ''You are an expert data analyst specializing in survey data.'' @ NL @
     NL @
     ''  Analyze the provided survey data to identify the key performance indicators (KPIs).'' @ NL @
     ''  A KPI is a numerical data point which has the highest correlation to all the other numerical data points.'' @ NL @
     ''  Consider only the numerical survey responses when identifying KPIs.'' @ NL @
     ''  Return a list of the names of the columns which have a numerical datatype, and are KPIs.'' @ NL @
     ''  Also explain the reasoning behind why these data points are KPIs.'' @ NL @
     NL"

definition detectKpisPrompt_template :: "segment list" where
  "detectKpisPrompt_template =
     [Text preamble_text,
      IfBlock VLanguage
        [Text ''  Note: The survey data is in '',
         Escaped VLanguage,
         Text '' language. Please consider language-specific nuances when identifying KPIs. Column names and values may be in '',
         Escaped VLanguage,
         Text (''.'' @ NL)],
      Text (NL @ ''  Survey Data: ''),
      Raw VSurveyData,
      Text (NL @ ''  '')]"

fun truthy :: "DetectKpisInput \<Rightarrow> template_var \<Rightarrow> bool" where
  "truthy input VLanguage = (case language input of None \<Rightarrow> False | Some l \<Rightarrow> l \<noteq> [])"
| "truthy input VSurveyData = (surveyData input \<noteq> [])"

fun record_text :: "survey_record \<Rightarrow> js_exn + string" where
  "record_text r =
     (if ''toString'' \<in> set (map fst r) then Inl TypeError else Inr ''[object Object]'')"

fun array_text :: "survey_record list \<Rightarrow> js_exn + string" where
  "array_text [] = Inr []"
| "array_text [r] = record_text r"
| "array_text (r # rs) =
     (case record_text r of
        Inl exn \<Rightarrow> Inl exn
      | Inr s \<Rightarrow> (case array_text rs of Inl exn \<Rightarrow> Inl exn | Inr t \<Rightarrow> Inr (s @ '','' @ t)))"

fun var_text :: "DetectKpisInput \<Rightarrow> template_var \<Rightarrow> js_exn + string" where
  "var_text input VLanguage = Inr (case language input of None \<Rightarrow> [] | Some l \<Rightarrow> l)"
| "var_text input VSurveyData = array_text (surveyData input)"

text \<open>The pieces of a text in order; the first one that throws ends the rendering.\<close>

fun concat_results :: "(js_exn + string) list \<Rightarrow> js_exn + string" where
  "concat_results [] = Inr []"
| "concat_results (Inl exn # rs) = Inl exn"
| "concat_results (Inr s # rs) =
     (case concat_results rs of Inl exn \<Rightarrow> Inl exn | Inr t \<Rightarrow> Inr (s @ t))"

fun render :: "(string \<Rightarrow> string) \<Rightarrow> DetectKpisInput \<Rightarrow> segment \<Rightarrow> js_exn + string" where
  "render esc input (Text s) = Inr s"
| "render esc input (Escaped v) =
     (case var_text input v of Inl exn \<Rightarrow> Inl exn | Inr s \<Rightarrow> Inr (esc s))"
| "render esc input (Raw v) = var_text input v"
| "render esc input (IfBlock v body) =
     (if truthy input v then concat_results (map (render esc input) body) else Inr [])"

definition detectKpisPrompt_text :: "(string \<Rightarrow> string) \<Rightarrow> DetectKpisInput \<Rightarrow> js_exn + string" where
  "detectKpisPrompt_text esc input =
     concat_results (map (render esc input) detectKpisPrompt_template)"

subsection \<open>Concrete inputs, errors and external worlds\<close>

text \<open>The records of the specification's example, without and with a language.\<close>

definition example_records :: "survey_record list" where
  "example_records =
     [[(''age'', JNum 30), (''satisfaction'', JStr ''high'')],
      [(''age'', JNum 45), (''satisfaction'', JStr ''low'')]]"

definition example_input :: DetectKpisInput where
  "example_input = \<lparr>surveyData = example_records, language = None\<rparr>"

definition example_input_fr :: DetectKpisInput where
  "example_input_fr = \<lparr>surveyData = example_records, language = Some ''fr''\<rparr>"

definition example_output :: DetectKpisOutput where
  "example_output = \<lparr>kpis = [''age''], explanation = ''age correlates with satisfaction''\<rparr>"

text \<open>A result naming a column the records do not have.\<close>

definition foreign_output :: DetectKpisOutput where
  "foreign_output = \<lparr>kpis = [''revenue''], explanation = ''not a column of the input''\<rparr>"

text \<open>Two other records, with other columns and other values.\<close>

definition other_records :: "survey_record list" where
  "other_records =
     [[(''revenue'', JNum 1200), (''region'', JStr ''north'')],
      [(''revenue'', JNum 80), (''region'', JStr ''south'')]]"

definition other_input :: DetectKpisInput where
  "other_input = \<lparr>surveyData = other_records, language = None\<rparr>"

text \<open>A survey with a column named \<^verbatim>\<open>toString\<close>.\<close>

definition toString_input :: DetectKpisInput where
  "toString_input =
     \<lparr>surveyData = [[(''age'', JNum 30), (''toString'', JStr ''yes'')]], language = None\<rparr>"

definition rate_limit_error :: js_value where
  "rate_limit_error =
     JObj [(''message'', JStr ''[GoogleGenerativeAI Error]: [429 Too Many Requests] Resource has been exhausted'')]"

definition upstream_error :: js_value where
  "upstream_error = JObj [(''message'', JStr ''[500 Internal Server Error] backend failure'')]"

definition messageless_error :: js_value where
  "messageless_error = JObj [(''code'', JNum 503)]"

definition array_message_error :: js_value where
  "array_message_error = JObj [(''message'', JArr [JStr ''429 Too Many Requests''])]"

definition array_element_error :: js_value where
  "array_element_error = JObj [(''message'', JArr [JStr ''HTTP 429 Too Many Requests''])]"

definition always_rate_limited :: "nat \<Rightarrow> outcome" where
  "always_rate_limited n = Rejects rate_limit_error"

definition two_rate_limits_then_ok :: "nat \<Rightarrow> outcome" where
  "two_rate_limits_then_ok n =
     (if n < 2 then Rejects rate_limit_error else Resolves (Some example_output))"

definition rate_limit_then_upstream :: "nat \<Rightarrow> outcome" where
  "rate_limit_then_upstream n =
     (if n < 1 then Rejects rate_limit_error else Rejects upstream_error)"

definition rate_limit_then_messageless :: "nat \<Rightarrow> outcome" where
  "rate_limit_then_messageless n =
     (if n < 1 then Rejects rate_limit_error else Rejects messageless_error)"

definition rate_limit_then_no_output :: "nat \<Rightarrow> outcome" where
  "rate_limit_then_no_output n =
     (if n < 1 then Rejects rate_limit_error else Resolves None)"

definition always_messageless :: "nat \<Rightarrow> outcome" where
  "always_messageless n = Rejects messageless_error"

definition foreign_output_world :: "nat \<Rightarrow> outcome" where
  "foreign_output_world n = Resolves (Some foreign_output)"

definition always_array_message :: "nat \<Rightarrow> outcome" where
  "always_array_message n = Rejects array_message_error"

section \<open>The loop, step by step\<close>

declare flow_loop.simps [simp del]
declare decimal.simps [simp del]

lemma flow_loop_resolves:
  "retries st < maxRetries \<Longrightarrow> ext n = Resolves output \<Longrightarrow>
   flow_loop ext input n st = ([Call input], Returned output)"
  by (subst flow_loop.simps) simp

lemma flow_loop_rate_limited:
  "retries st < maxRetries \<Longrightarrow> ext n = Rejects error \<Longrightarrow> is_rate_limit error = Inr True \<Longrightarrow>
   flow_loop ext input n st =
     (Call input # Warn (warn_message (delay st)) # Sleep (delay st) #
        fst (flow_loop ext input (Suc n) (st\<lparr>delay := delay st * 2, retries := retries st + 1\<rparr>)),
      snd (flow_loop ext input (Suc n) (st\<lparr>delay := delay st * 2, retries := retries st + 1\<rparr>)))"
  by (subst flow_loop.simps) (simp add: case_prod_beta)

lemma flow_loop_rethrows:
  "retries st < maxRetries \<Longrightarrow> ext n = Rejects error \<Longrightarrow> is_rate_limit error = Inr False \<Longrightarrow>
   flow_loop ext input n st = ([Call input], Threw (Thrown error))"
  by (subst flow_loop.simps) simp

lemma flow_loop_classification_throws:
  "retries st < maxRetries \<Longrightarrow> ext n = Rejects error \<Longrightarrow> is_rate_limit error = Inl exn \<Longrightarrow>
   flow_loop ext input n st = ([Call input], Threw exn)"
  by (subst flow_loop.simps) simp

lemma flow_loop_exhausted:
  "\<not> retries st < maxRetries \<Longrightarrow>
   flow_loop ext input n st = ([], Threw (NewError exhausted_message))"
  by (subst flow_loop.simps) simp

lemma flow_loop_backoff:
  assumes "\<forall>i<k. \<exists>error. ext (n + i) = Rejects error \<and> is_rate_limit error = Inr True"
    and "retries st + k \<le> maxRetries"
  shows "flow_loop ext input n st =
     (concat (map (\<lambda>i. [Call input, Warn (warn_message (delay st * 2 ^ i)), Sleep (delay st * 2 ^ i)]) [0..<k]) @
        fst (flow_loop ext input (n + k) (st\<lparr>delay := delay st * 2 ^ k, retries := retries st + k\<rparr>)),
      snd (flow_loop ext input (n + k) (st\<lparr>delay := delay st * 2 ^ k, retries := retries st + k\<rparr>)))"
  using assms
proof (induction k arbitrary: n st)
  case 0
  then show ?case by simp
next
  case (Suc k)
  let ?st' = "(st\<lparr>delay := delay st * 2, retries := retries st + 1\<rparr>)"
  from Suc.prems(1) obtain error where e: "ext n = Rejects error" "is_rate_limit error = Inr True"
    by force
  have lt: "retries st < maxRetries" using Suc.prems(2) by simp
  have later: "\<forall>i<k. \<exists>error. ext (Suc n + i) = Rejects error \<and> is_rate_limit error = Inr True"
    using Suc.prems(1) by (metis Suc_less_eq add_Suc_shift)
  have bound: "retries ?st' + k \<le> maxRetries" using Suc.prems(2) by simp
  have idx: "[0..<Suc k] = 0 # map Suc [0..<k]"
    using upt_conv_Cons [of 0 "Suc k"] map_Suc_upt [of 0 k] by simp
  show ?case
    unfolding flow_loop_rate_limited [where ext = ext and n = n and st = st and input = input, OF lt e]
      Suc.IH [OF later bound] idx
    by (simp add: o_def mult.assoc)
qed

subsection \<open>Projections of traces\<close>

lemma sleeps_append: "sleeps (xs @ ys) = sleeps xs @ sleeps ys"
  by (induction xs rule: sleeps.induct) simp_all

lemma calls_append: "calls (xs @ ys) = calls xs @ calls ys"
  by (induction xs rule: calls.induct) simp_all

lemma warns_append: "warns (xs @ ys) = warns xs @ warns ys"
  by (induction xs rule: warns.induct) simp_all

lemma sleeps_rounds:
  "sleeps (concat (map (\<lambda>i. [Call input, Warn (w i), Sleep (d i)]) js)) = map d js"
  by (induction js) simp_all

lemma calls_rounds:
  "calls (concat (map (\<lambda>i. [Call input, Warn (w i), Sleep (d i)]) js)) = replicate (length js) input"
  by (induction js) simp_all

lemma warns_rounds:
  "warns (concat (map (\<lambda>i. [Call input, Warn (w i), Sleep (d i)]) js)) = map w js"
  by (induction js) simp_all

lemma doubling_delays: "k < 3 \<Longrightarrow> map (\<lambda>i. 2000 * 2 ^ i) [0..<k] = take k [2000, 4000 :: nat]"
proof -
  assume "k < 3"
  then consider "k = 0" | "k = 1" | "k = 2" by linarith
  then show ?thesis
    by cases (simp_all add: numeral_2_eq_2)
qed

lemma outputSchema_check_Returned:
  "outputSchema_check (Returned r) =
     (case r of Some out \<Rightarrow> Returned (Some out) | None \<Rightarrow> Threw ValidationError)"
  by (cases r) simp_all

lemma handler_backoff:
  assumes "\<forall>i<k. \<exists>error. ext i = Rejects error \<and> is_rate_limit error = Inr True"
    and "k \<le> 3"
  shows "detectKpisFlow_handler ext input =
     (concat (map (\<lambda>i. [Call input, Warn (warn_message (2000 * 2 ^ i)), Sleep (2000 * 2 ^ i)]) [0..<k]) @
        fst (flow_loop ext input k \<lparr>retries = k, delay = 2000 * 2 ^ k\<rparr>),
      snd (flow_loop ext input k \<lparr>retries = k, delay = 2000 * 2 ^ k\<rparr>))"
proof -
  let ?st = "\<lparr>retries = 0, delay = 2000\<rparr>"
  have "\<forall>i<k. \<exists>error. ext (0 + i) = Rejects error \<and> is_rate_limit error = Inr True"
    using assms(1) by simp
  moreover have "retries ?st + k \<le> maxRetries"
    using assms(2) by (simp add: maxRetries_def)
  ultimately show ?thesis
    unfolding detectKpisFlow_handler_def
    by (simp add: flow_loop_backoff [where st = ?st and n = 0 and k = k])
qed

lemma detectKpis_backoff:
  assumes "\<forall>i<k. \<exists>error. ext i = Rejects error \<and> is_rate_limit error = Inr True"
    and "k \<le> 3"
  shows "detectKpis ext input =
     (concat (map (\<lambda>i. [Call input, Warn (warn_message (2000 * 2 ^ i)), Sleep (2000 * 2 ^ i)]) [0..<k]) @
        fst (flow_loop ext input k \<lparr>retries = k, delay = 2000 * 2 ^ k\<rparr>),
      outputSchema_check (snd (flow_loop ext input k \<lparr>retries = k, delay = 2000 * 2 ^ k\<rparr>)))"
  unfolding detectKpis_def detectKpisFlow_def handler_backoff [OF assms] by simp

lemma flow_loop_starts_with_call:
  assumes "retries st < maxRetries"
  shows "\<exists>evs. fst (flow_loop ext input n st) = Call input # evs"
  using assms
  by (subst flow_loop.simps) (simp split: outcome.split sum.split prod.split)

subsection \<open>The concrete errors and warnings, evaluated\<close>

lemma rate_limit_error_classified: "is_rate_limit rate_limit_error = Inr True"
  by code_simp

lemma upstream_error_classified: "is_rate_limit upstream_error = Inr False"
  by code_simp

lemma array_message_error_classified: "is_rate_limit array_message_error = Inr True"
  by code_simp

lemma array_element_error_classified: "is_rate_limit array_element_error = Inr False"
  by code_simp

lemma messageless_error_classified: "is_rate_limit messageless_error = Inl TypeError"
  by code_simp

lemma warn_message_2000: "warn_message 2000 = ''Rate limit exceeded. Retrying in 2 seconds...''"
  by code_simp

lemma warn_message_4000: "warn_message 4000 = ''Rate limit exceeded. Retrying in 4 seconds...''"
  by code_simp

lemma warn_message_8000: "warn_message 8000 = ''Rate limit exceeded. Retrying in 8 seconds...''"
  by code_simp

lemma upt_0_2: "[0..<2] = [0, Suc 0]"
  by (simp add: numeral_2_eq_2)

lemma upt_0_3: "[0..<3] = [0, Suc 0, 2]"
  by (simp add: numeral_3_eq_3 numeral_2_eq_2)

section \<open>The retry policy\<close>

text \<open>
  Claim C1. When the first \<open>k < 3\<close> external calls fail with rate-limit errors and the next
  one succeeds, \<open>detectKpis\<close> returns that call's result. Before it, the handler has called
  the endpoint \<open>k\<close> times, each call followed by a warning and a sleep; the sleeps are
  2000 ms, then 4000 ms: the delay starts at 2000 and doubles after every sleep. (The result
  of a call is its parsed output; a call that resolves without one is the subject of C5.)
\<close>

theorem rate_limits_then_success:
  assumes "k < 3"
    and "\<forall>i<k. \<exists>error. ext i = Rejects error \<and> is_rate_limit error = Inr True"
    and "ext k = Resolves output"
  shows "detectKpis ext input =
           (concat (map (\<lambda>i. [Call input, Warn (warn_message (2000 * 2 ^ i)), Sleep (2000 * 2 ^ i)])
                     [0..<k]) @ [Call input],
            case output of Some out \<Rightarrow> Returned (Some out) | None \<Rightarrow> Threw ValidationError)
         \<and> sleeps (fst (detectKpis ext input)) = take k [2000, 4000]"
proof -
  have "flow_loop ext input k \<lparr>retries = k, delay = 2000 * 2 ^ k\<rparr> = ([Call input], Returned output)"
    using assms(1,3) by (simp add: flow_loop_resolves maxRetries_def)
  then have run: "detectKpis ext input =
           (concat (map (\<lambda>i. [Call input, Warn (warn_message (2000 * 2 ^ i)), Sleep (2000 * 2 ^ i)])
                     [0..<k]) @ [Call input],
            case output of Some out \<Rightarrow> Returned (Some out) | None \<Rightarrow> Threw ValidationError)"
    using detectKpis_backoff [OF assms(2), of input] assms(1)
    by (simp add: outputSchema_check_Returned)
  show ?thesis
    unfolding run using assms(1)
    by (simp add: sleeps_append sleeps_rounds doubling_delays)
qed

text \<open>Two rate-limit failures, then a success: sleeps of 2000 ms and 4000 ms.\<close>

theorem rate_limits_then_success_witness:
  "(2::nat) < 3
   \<and> two_rate_limits_then_ok 0 = Rejects rate_limit_error
   \<and> two_rate_limits_then_ok 1 = Rejects rate_limit_error
   \<and> is_rate_limit rate_limit_error = Inr True
   \<and> two_rate_limits_then_ok 2 = Resolves (Some example_output)
   \<and> detectKpis two_rate_limits_then_ok example_input =
        ([Call example_input, Warn ''Rate limit exceeded. Retrying in 2 seconds...'', Sleep 2000,
          Call example_input, Warn ''Rate limit exceeded. Retrying in 4 seconds...'', Sleep 4000,
          Call example_input],
         Returned (Some example_output))
   \<and> sleeps (fst (detectKpis two_rate_limits_then_ok example_input)) = [2000, 4000]"
proof -
  have h1: "(2::nat) < 3" by simp
  have e: "two_rate_limits_then_ok 0 = Rejects rate_limit_error"
    "two_rate_limits_then_ok 1 = Rejects rate_limit_error"
    by (simp_all add: two_rate_limits_then_ok_def)
  have h2: "\<forall>i<2. \<exists>error. two_rate_limits_then_ok i = Rejects error \<and> is_rate_limit error = Inr True"
    by (simp add: two_rate_limits_then_ok_def rate_limit_error_classified)
  have h3: "two_rate_limits_then_ok 2 = Resolves (Some example_output)"
    by (simp add: two_rate_limits_then_ok_def)
  show ?thesis
    using rate_limits_then_success [OF h1 h2 h3, of example_input] e h3
    by (simp add: rate_limit_error_classified upt_0_2 warn_message_2000 warn_message_4000)
qed

text \<open>
  Claim C2. When the first three external calls all fail with rate-limit errors,
  \<open>detectKpis\<close> calls the endpoint exactly three times and then throws the terminal error
  whose message says that the retries were used up by rate limiting; what a fourth call would
  have produced is never asked for.
\<close>

theorem three_rate_limits_exhaust:
  assumes "\<forall>i<3. \<exists>error. ext i = Rejects error \<and> is_rate_limit error = Inr True"
  shows "snd (detectKpis ext input) =
           Threw (NewError ''Failed to detect KPIs after multiple retries due to rate limiting.'')
         \<and> calls (fst (detectKpis ext input)) = [input, input, input]"
proof -
  have stop: "flow_loop ext input 3 \<lparr>retries = 3, delay = 2000 * 2 ^ 3\<rparr> =
      ([], Threw (NewError exhausted_message))"
    by (simp add: flow_loop_exhausted maxRetries_def)
  have run: "detectKpis ext input =
      (concat (map (\<lambda>i. [Call input, Warn (warn_message (2000 * 2 ^ i)), Sleep (2000 * 2 ^ i)])
                [0..<3]),
       Threw (NewError exhausted_message))"
    using detectKpis_backoff [OF assms, of input] stop by simp
  show ?thesis
    unfolding run by (simp add: calls_rounds exhausted_message_def numeral_3_eq_3)
qed

text \<open>Three rate-limit failures in a row: three calls, then the terminal error.\<close>

theorem three_rate_limits_exhaust_witness:
  "always_rate_limited 0 = Rejects rate_limit_error
   \<and> always_rate_limited 1 = Rejects rate_limit_error
   \<and> always_rate_limited 2 = Rejects rate_limit_error
   \<and> is_rate_limit rate_limit_error = Inr True
   \<and> snd (detectKpis always_rate_limited example_input) =
        Threw (NewError ''Failed to detect KPIs after multiple retries due to rate limiting.'')
   \<and> calls (fst (detectKpis always_rate_limited example_input)) =
        [example_input, example_input, example_input]"
proof -
  have e: "always_rate_limited 0 = Rejects rate_limit_error"
    "always_rate_limited 1 = Rejects rate_limit_error"
    "always_rate_limited 2 = Rejects rate_limit_error"
    by (simp_all add: always_rate_limited_def)
  have h: "\<forall>i<3. \<exists>error. always_rate_limited i = Rejects error \<and> is_rate_limit error = Inr True"
    by (simp add: always_rate_limited_def rate_limit_error_classified)
  show ?thesis
    using three_rate_limits_exhaust [OF h, of example_input] e
    by (simp add: rate_limit_error_classified)
qed

text \<open>
  The else branch of lines 83 to 86, where it is reached. On whichever attempt it happens
  (the first, or after \<open>k < 3\<close> rate-limited ones), an error on which the test of line 78
  yields false is rethrown as the very value the external call threw. The failing call is the
  last event: no warning, no sleep and no further call follow it.
\<close>

theorem other_error_propagates:
  assumes "k < 3"
    and "\<forall>i<k. \<exists>e. ext i = Rejects e \<and> is_rate_limit e = Inr True"
    and "ext k = Rejects error"
    and "is_rate_limit error = Inr False"
  shows "detectKpis ext input =
           (concat (map (\<lambda>i. [Call input, Warn (warn_message (2000 * 2 ^ i)), Sleep (2000 * 2 ^ i)])
                     [0..<k]) @ [Call input],
            Threw (Thrown error))
         \<and> sleeps (fst (detectKpis ext input)) = take k [2000, 4000]
         \<and> length (calls (fst (detectKpis ext input))) = Suc k"
proof -
  have "flow_loop ext input k \<lparr>retries = k, delay = 2000 * 2 ^ k\<rparr> =
      ([Call input], Threw (Thrown error))"
    using assms(1,3,4) by (simp add: flow_loop_rethrows maxRetries_def)
  then have run: "detectKpis ext input =
           (concat (map (\<lambda>i. [Call input, Warn (warn_message (2000 * 2 ^ i)), Sleep (2000 * 2 ^ i)])
                     [0..<k]) @ [Call input],
            Threw (Thrown error))"
    using detectKpis_backoff [OF assms(2), of input] assms(1) by simp
  show ?thesis
    unfolding run using assms(1)
    by (simp add: sleeps_append sleeps_rounds calls_append calls_rounds doubling_delays)
qed

text \<open>A rate-limit failure, then a server error on the second attempt.\<close>

theorem other_error_propagates_witness:
  "(1::nat) < 3
   \<and> rate_limit_then_upstream 0 = Rejects rate_limit_error
   \<and> is_rate_limit rate_limit_error = Inr True
   \<and> rate_limit_then_upstream 1 = Rejects upstream_error
   \<and> is_rate_limit upstream_error = Inr False
   \<and> detectKpis rate_limit_then_upstream example_input =
        ([Call example_input, Warn ''Rate limit exceeded. Retrying in 2 seconds...'', Sleep 2000,
          Call example_input],
         Threw (Thrown upstream_error))
   \<and> sleeps (fst (detectKpis rate_limit_then_upstream example_input)) = [2000]
   \<and> length (calls (fst (detectKpis rate_limit_then_upstream example_input))) = 2"
proof -
  have h1: "(1::nat) < 3" by simp
  have e: "rate_limit_then_upstream 0 = Rejects rate_limit_error"
    by (simp add: rate_limit_then_upstream_def)
  have h2: "\<forall>i<1. \<exists>e. rate_limit_then_upstream i = Rejects e \<and> is_rate_limit e = Inr True"
    by (simp add: e rate_limit_error_classified)
  have h3: "rate_limit_then_upstream 1 = Rejects upstream_error"
    by (simp add: rate_limit_then_upstream_def)
  show ?thesis
    using other_error_propagates [OF h1 h2 h3 upstream_error_classified, of example_input] e h3
    by (simp add: rate_limit_error_classified upstream_error_classified warn_message_2000)
qed

text \<open>
  Claim C3 says that every error of the external call that is not a rate-limit error reaches
  the caller unchanged, as the comment of line 84 has it. The else branch does rethrow the
  error (the two theorems above), but the test of line 78 comes first and reads
  \<^verbatim>\<open>error.message.includes\<close> with no guard. An upstream error without a string message,
  here the object \<^verbatim>\<open>{code: 503}\<close> on the first attempt, makes the test itself throw: the
  caller receives a TypeError, and the upstream error is lost.
\<close>

theorem messageless_error_is_masked:
  "always_messageless 0 = Rejects messageless_error
   \<and> messageless_error = JObj [(''code'', JNum 503)]
   \<and> is_rate_limit messageless_error = Inl TypeError
   \<and> detectKpis always_messageless example_input = ([Call example_input], Threw TypeError)
   \<and> snd (detectKpis always_messageless example_input) \<noteq> Threw (Thrown messageless_error)"
proof -
  have e: "always_messageless 0 = Rejects messageless_error"
    by (simp add: always_messageless_def)
  have "flow_loop always_messageless example_input 0 \<lparr>retries = 0, delay = 2000\<rparr> =
      ([Call example_input], Threw TypeError)"
    using e messageless_error_classified
    by (simp add: flow_loop_classification_throws maxRetries_def)
  then have "detectKpis always_messageless example_input = ([Call example_input], Threw TypeError)"
    by (simp add: detectKpis_def detectKpisFlow_def detectKpisFlow_handler_def)
  with e messageless_error_classified show ?thesis
    by (simp add: messageless_error_def)
qed

text \<open>
  Claim C4 says that a rate-limit error on the third attempt leads to the failure at once,
  with no backoff sleep. The loop does otherwise: the catch block of lines 78 to 82 does not
  look at the attempt count, so after the third rate-limit error it still logs
  \<^verbatim>\<open>Retrying in 8 seconds...\<close> and sleeps 8000 ms, and only then does the loop condition
  fail and line 90 throw. The run on three rate-limit errors, event by event:
\<close>

theorem third_rate_limit_still_sleeps:
  "detectKpis always_rate_limited example_input =
     ([Call example_input, Warn ''Rate limit exceeded. Retrying in 2 seconds...'', Sleep 2000,
       Call example_input, Warn ''Rate limit exceeded. Retrying in 4 seconds...'', Sleep 4000,
       Call example_input, Warn ''Rate limit exceeded. Retrying in 8 seconds...'', Sleep 8000],
      Threw (NewError ''Failed to detect KPIs after multiple retries due to rate limiting.''))"
proof -
  have h: "\<forall>i<3. \<exists>error. always_rate_limited i = Rejects error \<and> is_rate_limit error = Inr True"
    by (simp add: always_rate_limited_def rate_limit_error_classified)
  have stop: "flow_loop always_rate_limited example_input 3 \<lparr>retries = 3, delay = 2000 * 2 ^ 3\<rparr> =
      ([], Threw (NewError exhausted_message))"
    by (simp add: flow_loop_exhausted maxRetries_def)
  have run: "detectKpis always_rate_limited example_input =
      (concat (map (\<lambda>i. [Call example_input, Warn (warn_message (2000 * 2 ^ i)), Sleep (2000 * 2 ^ i)])
                [0..<3]),
       Threw (NewError exhausted_message))"
    using detectKpis_backoff [OF h, of example_input] stop by simp
  show ?thesis
    unfolding run
    by (simp add: upt_0_3 exhausted_message_def warn_message_2000 warn_message_4000 warn_message_8000)
qed

text \<open>
  Claim C5. If an external call (the first, or one after \<open>k < 3\<close> rate-limited attempts)
  reports success but yields no output, \<open>detectKpis\<close> does not resolve with the missing
  output: the handler returns it (line 76), the flow's output schema rejects it, and the caller
  receives the validation error, a failure of its own kind (neither the exhaustion error nor
  an error of the external call). Nothing is retried or waited for because of it.
\<close>

theorem missing_output_is_rejected:
  assumes "k < 3"
    and "\<forall>i<k. \<exists>e. ext i = Rejects e \<and> is_rate_limit e = Inr True"
    and "ext k = Resolves None"
  shows "detectKpis ext input =
           (concat (map (\<lambda>i. [Call input, Warn (warn_message (2000 * 2 ^ i)), Sleep (2000 * 2 ^ i)])
                     [0..<k]) @ [Call input],
            Threw ValidationError)
         \<and> snd (detectKpisFlow_handler ext input) = Returned None
         \<and> (\<forall>out. snd (detectKpis ext input) \<noteq> Returned out)"
proof -
  have last: "flow_loop ext input k \<lparr>retries = k, delay = 2000 * 2 ^ k\<rparr> = ([Call input], Returned None)"
    using assms(1,3) by (simp add: flow_loop_resolves maxRetries_def)
  have run: "detectKpis ext input =
           (concat (map (\<lambda>i. [Call input, Warn (warn_message (2000 * 2 ^ i)), Sleep (2000 * 2 ^ i)])
                     [0..<k]) @ [Call input],
            Threw ValidationError)"
    using detectKpis_backoff [OF assms(2), of input] assms(1) last by simp
  have "snd (detectKpisFlow_handler ext input) = Returned None"
    using handler_backoff [OF assms(2), of input] assms(1) last by simp
  with run show ?thesis by simp
qed

text \<open>A rate-limit failure, then a call that resolves without output.\<close>

theorem missing_output_is_rejected_witness:
  "(1::nat) < 3
   \<and> rate_limit_then_no_output 0 = Rejects rate_limit_error
   \<and> is_rate_limit rate_limit_error = Inr True
   \<and> rate_limit_then_no_output 1 = Resolves None
   \<and> detectKpis rate_limit_then_no_output example_input =
        ([Call example_input, Warn ''Rate limit exceeded. Retrying in 2 seconds...'', Sleep 2000,
          Call example_input],
         Threw ValidationError)
   \<and> snd (detectKpisFlow_handler rate_limit_then_no_output example_input) = Returned None"
proof -
  have h1: "(1::nat) < 3" by simp
  have e: "rate_limit_then_no_output 0 = Rejects rate_limit_error"
    by (simp add: rate_limit_then_no_output_def)
  have h2: "\<forall>i<1. \<exists>e. rate_limit_then_no_output i = Rejects e \<and> is_rate_limit e = Inr True"
    by (simp add: e rate_limit_error_classified)
  have h3: "rate_limit_then_no_output 1 = Resolves None"
    by (simp add: rate_limit_then_no_output_def)
  show ?thesis
    using missing_output_is_rejected
        [where ext = rate_limit_then_no_output and input = example_input, OF h1 h2 h3] e h3
    by (simp add: rate_limit_error_classified warn_message_2000)
qed

text \<open>
  Claim C6. When the first external call succeeds, \<open>detectKpis\<close> returns exactly the parsed
  output of that call, whatever it is and whatever the input's columns are; the call is the
  only event, so nothing is retried, logged or waited for. (A call that resolves without an
  output is the subject of C5.)
\<close>

theorem first_attempt_success:
  assumes "ext 0 = Resolves output"
  shows "detectKpis ext input =
           ([Call input],
            case output of Some out \<Rightarrow> Returned (Some out) | None \<Rightarrow> Threw ValidationError)
         \<and> sleeps (fst (detectKpis ext input)) = []
         \<and> warns (fst (detectKpis ext input)) = []"
  using assms
  by (simp add: detectKpis_def detectKpisFlow_def detectKpisFlow_handler_def flow_loop_resolves
      maxRetries_def outputSchema_check_Returned)

text \<open>The result names a column the records do not have; it is returned as it is.\<close>

theorem first_attempt_success_witness:
  "foreign_output_world 0 = Resolves (Some foreign_output)
   \<and> detectKpis foreign_output_world example_input =
        ([Call example_input],
         Returned (Some \<lparr>kpis = [''revenue''], explanation = ''not a column of the input''\<rparr>))
   \<and> sleeps (fst (detectKpis foreign_output_world example_input)) = []
   \<and> warns (fst (detectKpis foreign_output_world example_input)) = []"
proof -
  have h: "foreign_output_world 0 = Resolves (Some foreign_output)"
    by (simp add: foreign_output_world_def)
  show ?thesis
    using first_attempt_success [where ext = foreign_output_world and input = example_input, OF h] h
    by (simp add: foreign_output_def)
qed

text \<open>
  Claim C7 says that a caught error is treated as a rate-limit error exactly when its message
  contains \<^verbatim>\<open>429 Too Many Requests\<close> as a substring, and that this triggers a retry.
  Neither holds of every caught error. The test is \<^verbatim>\<open>includes\<close>, which on an array is
  membership: the message \<^verbatim>\<open>['429 Too Many Requests']\<close> is taken for a rate limit, and the
  message \<^verbatim>\<open>['HTTP 429 Too Many Requests']\<close>, which contains the text, is not. And a
  rate-limit error on the third attempt is followed by no further attempt:
\<close>

theorem classification_counterexample:
  "get_message array_message_error = Inr (JArr [JStr ''429 Too Many Requests''])
   \<and> is_rate_limit array_message_error = Inr True
   \<and> get_message array_element_error = Inr (JArr [JStr ''HTTP 429 Too Many Requests''])
   \<and> sublist ''429 Too Many Requests'' ''HTTP 429 Too Many Requests''
   \<and> is_rate_limit array_element_error = Inr False
   \<and> always_rate_limited 2 = Rejects rate_limit_error
   \<and> is_rate_limit rate_limit_error = Inr True
   \<and> calls (fst (flow_loop always_rate_limited example_input 2 \<lparr>retries = 2, delay = 8000\<rparr>)) =
        [example_input]"
proof -
  have e: "always_rate_limited 2 = Rejects rate_limit_error"
    by (simp add: always_rate_limited_def)
  have r2: "retries \<lparr>retries = 2, delay = 8000\<rparr> < maxRetries"
    by (simp add: maxRetries_def)
  note step = flow_loop_rate_limited
    [where ext = always_rate_limited and input = example_input and n = 2,
      OF r2 e rate_limit_error_classified]
  have stop: "flow_loop always_rate_limited example_input (Suc 2)
      (\<lparr>retries = 2, delay = 8000\<rparr>\<lparr>delay := delay \<lparr>retries = 2, delay = 8000\<rparr> * 2,
          retries := retries \<lparr>retries = 2, delay = 8000\<rparr> + 1\<rparr>) =
      ([], Threw (NewError exhausted_message))"
    by (simp add: flow_loop_exhausted maxRetries_def)
  have "calls (fst (flow_loop always_rate_limited example_input 2 \<lparr>retries = 2, delay = 8000\<rparr>)) =
      [example_input]"
    unfolding step stop by simp
  moreover have "sublist ''429 Too Many Requests'' ''HTTP 429 Too Many Requests''"
    by code_simp
  moreover have "get_message array_message_error = Inr (JArr [JStr ''429 Too Many Requests''])"
    "get_message array_element_error = Inr (JArr [JStr ''HTTP 429 Too Many Requests''])"
    by (simp_all add: array_message_error_def array_element_error_def)
  ultimately show ?thesis
    using e by (simp add: array_message_error_classified array_element_error_classified
        rate_limit_error_classified)
qed

text \<open>
  Claim C7, amended. For a caught error whose \<^verbatim>\<open>message\<close> is a string, the test of line
  78 is true exactly when \<^verbatim>\<open>429 Too Many Requests\<close> occurs in the message as a substring.
  When it is true on the first or the second attempt, the handler logs the warning, sleeps
  the current delay and makes another attempt with the delay doubled and \<^verbatim>\<open>retries\<close>
  incremented. When it is true on the third attempt, no further attempt is made and the
  handler throws the exhaustion error. When it is false, the error is rethrown at once.
\<close>

theorem classification_by_substring:
  assumes "retries st < maxRetries"
    and "ext n = Rejects error"
    and "get_message error = Inr (JStr m)"
  shows "is_rate_limit error = Inr (sublist ''429 Too Many Requests'' m)
         \<and> (sublist ''429 Too Many Requests'' m \<and> retries st + 1 < maxRetries \<longrightarrow>
              (\<exists>evs. flow_loop ext input n st =
                 (Call input # Warn (warn_message (delay st)) # Sleep (delay st) # Call input # evs,
                  snd (flow_loop ext input (Suc n)
                         (st\<lparr>delay := delay st * 2, retries := retries st + 1\<rparr>)))
               \<and> fst (flow_loop ext input (Suc n)
                         (st\<lparr>delay := delay st * 2, retries := retries st + 1\<rparr>)) =
                   Call input # evs))
         \<and> (sublist ''429 Too Many Requests'' m \<and> retries st + 1 = maxRetries \<longrightarrow>
              calls (fst (flow_loop ext input n st)) = [input]
              \<and> snd (flow_loop ext input n st) = Threw (NewError exhausted_message))
         \<and> (\<not> sublist ''429 Too Many Requests'' m \<longrightarrow>
              flow_loop ext input n st = ([Call input], Threw (Thrown error)))"
proof -
  let ?st' = "st\<lparr>delay := delay st * 2, retries := retries st + 1\<rparr>"
  have c: "is_rate_limit error = Inr (sublist ''429 Too Many Requests'' m)"
    using assms(3) by (simp add: is_rate_limit_def)
  have round: "flow_loop ext input n st =
      (Call input # Warn (warn_message (delay st)) # Sleep (delay st) #
         fst (flow_loop ext input (Suc n) ?st'),
       snd (flow_loop ext input (Suc n) ?st'))"
    if "sublist ''429 Too Many Requests'' m"
    using flow_loop_rate_limited [where ext = ext and input = input, OF assms(1,2)] c that
    by simp
  have again: "\<exists>evs. flow_loop ext input n st =
        (Call input # Warn (warn_message (delay st)) # Sleep (delay st) # Call input # evs,
         snd (flow_loop ext input (Suc n) ?st'))
      \<and> fst (flow_loop ext input (Suc n) ?st') = Call input # evs"
    if s: "sublist ''429 Too Many Requests'' m" and more: "retries st + 1 < maxRetries"
  proof -
    from more have "retries ?st' < maxRetries" by simp
    from flow_loop_starts_with_call [OF this, of ext input "Suc n"]
    obtain evs where "fst (flow_loop ext input (Suc n) ?st') = Call input # evs" ..
    with round [OF s] show ?thesis by simp
  qed
  have final: "calls (fst (flow_loop ext input n st)) = [input]
      \<and> snd (flow_loop ext input n st) = Threw (NewError exhausted_message)"
    if s: "sublist ''429 Too Many Requests'' m" and lastone: "retries st + 1 = maxRetries"
  proof -
    from lastone have "\<not> retries ?st' < maxRetries" by simp
    then have "flow_loop ext input (Suc n) ?st' = ([], Threw (NewError exhausted_message))"
      by (rule flow_loop_exhausted)
    with round [OF s] show ?thesis by simp
  qed
  have other: "flow_loop ext input n st = ([Call input], Threw (Thrown error))"
    if "\<not> sublist ''429 Too Many Requests'' m"
    using flow_loop_rethrows [where ext = ext and input = input, OF assms(1,2)] c that
    by simp
  from c again final other show ?thesis by blast
qed

text \<open>
  A 429 message on the first attempt: warning, sleep of 2000 ms, second attempt. A 429 message
  on the third attempt: no fourth attempt, the exhaustion error. A 500 message: rethrown.
\<close>

theorem classification_by_substring_witness:
  "get_message rate_limit_error =
        Inr (JStr ''[GoogleGenerativeAI Error]: [429 Too Many Requests] Resource has been exhausted'')
   \<and> is_rate_limit rate_limit_error = Inr True
   \<and> two_rate_limits_then_ok 0 = Rejects rate_limit_error
   \<and> (\<exists>evs. flow_loop two_rate_limits_then_ok example_input 0 \<lparr>retries = 0, delay = 2000\<rparr> =
          (Call example_input # Warn ''Rate limit exceeded. Retrying in 2 seconds...'' # Sleep 2000 #
             Call example_input # evs,
           snd (flow_loop two_rate_limits_then_ok example_input 1 \<lparr>retries = 1, delay = 4000\<rparr>)))
   \<and> always_rate_limited 2 = Rejects rate_limit_error
   \<and> calls (fst (flow_loop always_rate_limited example_input 2 \<lparr>retries = 2, delay = 8000\<rparr>)) =
        [example_input]
   \<and> snd (flow_loop always_rate_limited example_input 2 \<lparr>retries = 2, delay = 8000\<rparr>) =
        Threw (NewError ''Failed to detect KPIs after multiple retries due to rate limiting.'')
   \<and> rate_limit_then_upstream 1 = Rejects upstream_error
   \<and> is_rate_limit upstream_error = Inr False
   \<and> flow_loop rate_limit_then_upstream example_input 1 \<lparr>retries = 1, delay = 4000\<rparr> =
        ([Call example_input], Threw (Thrown upstream_error))"
proof -
  have m: "get_message rate_limit_error =
      Inr (JStr ''[GoogleGenerativeAI Error]: [429 Too Many Requests] Resource has been exhausted'')"
    by (simp add: rate_limit_error_def)
  have s: "sublist ''429 Too Many Requests''
      ''[GoogleGenerativeAI Error]: [429 Too Many Requests] Resource has been exhausted''"
    using rate_limit_error_classified m by (simp add: is_rate_limit_def)
  have mu: "get_message upstream_error = Inr (JStr ''[500 Internal Server Error] backend failure'')"
    by (simp add: upstream_error_def)
  have su: "\<not> sublist ''429 Too Many Requests'' ''[500 Internal Server Error] backend failure''"
    using upstream_error_classified mu by (simp add: is_rate_limit_def)
  have r0: "retries \<lparr>retries = 0, delay = 2000\<rparr> < maxRetries"
    and r1: "retries \<lparr>retries = 1, delay = 4000\<rparr> < maxRetries"
    and r2: "retries \<lparr>retries = 2, delay = 8000\<rparr> < maxRetries"
    by (simp_all add: maxRetries_def)
  have e0: "two_rate_limits_then_ok 0 = Rejects rate_limit_error"
    by (simp add: two_rate_limits_then_ok_def)
  have e2: "always_rate_limited 2 = Rejects rate_limit_error"
    by (simp add: always_rate_limited_def)
  have e1: "rate_limit_then_upstream 1 = Rejects upstream_error"
    by (simp add: rate_limit_then_upstream_def)
  note first = classification_by_substring
    [where ext = two_rate_limits_then_ok and n = 0 and input = example_input, OF r0 e0 m]
  note third = classification_by_substring
    [where ext = always_rate_limited and n = 2 and input = example_input, OF r2 e2 m]
  note upstream = classification_by_substring
    [where ext = rate_limit_then_upstream and n = 1 and input = example_input, OF r1 e1 mu]
  have a: "\<exists>evs. flow_loop two_rate_limits_then_ok example_input 0 \<lparr>retries = 0, delay = 2000\<rparr> =
          (Call example_input # Warn ''Rate limit exceeded. Retrying in 2 seconds...'' # Sleep 2000 #
             Call example_input # evs,
           snd (flow_loop two_rate_limits_then_ok example_input 1 \<lparr>retries = 1, delay = 4000\<rparr>))"
    using first s by (auto simp add: maxRetries_def warn_message_2000)
  have b: "calls (fst (flow_loop always_rate_limited example_input 2 \<lparr>retries = 2, delay = 8000\<rparr>)) =
        [example_input]
      \<and> snd (flow_loop always_rate_limited example_input 2 \<lparr>retries = 2, delay = 8000\<rparr>) =
        Threw (NewError ''Failed to detect KPIs after multiple retries due to rate limiting.'')"
    using third s by (simp add: maxRetries_def exhausted_message_def)
  have c: "flow_loop rate_limit_then_upstream example_input 1 \<lparr>retries = 1, delay = 4000\<rparr> =
        ([Call example_input], Threw (Thrown upstream_error))"
    using upstream su by simp
  from a b c m e0 e1 e2 show ?thesis
    by (simp add: rate_limit_error_classified upstream_error_classified)
qed

text \<open>
  Claim C9 says that the only side effect of a run is one warning for each retry. The loop
  logs its warning in the catch block, before it knows whether a retry will follow: on three
  rate-limit errors there are three attempts, so two retries, and three warnings. The third,
  \<^verbatim>\<open>Retrying in 8 seconds...\<close>, announces a retry that is never made.
\<close>

theorem exhaustion_logs_three_warnings:
  "calls (fst (detectKpis always_rate_limited example_input)) =
     [example_input, example_input, example_input]
   \<and> warns (fst (detectKpis always_rate_limited example_input)) =
     [''Rate limit exceeded. Retrying in 2 seconds...'',
      ''Rate limit exceeded. Retrying in 4 seconds...'',
      ''Rate limit exceeded. Retrying in 8 seconds...'']
   \<and> snd (detectKpis always_rate_limited example_input) =
     Threw (NewError ''Failed to detect KPIs after multiple retries due to rate limiting.'')"
proof -
  have h: "\<forall>i<3. \<exists>error. always_rate_limited i = Rejects error \<and> is_rate_limit error = Inr True"
    by (simp add: always_rate_limited_def rate_limit_error_classified)
  have stop: "flow_loop always_rate_limited example_input 3 \<lparr>retries = 3, delay = 2000 * 2 ^ 3\<rparr> =
      ([], Threw (NewError exhausted_message))"
    by (simp add: flow_loop_exhausted maxRetries_def)
  have run: "detectKpis always_rate_limited example_input =
      (concat (map (\<lambda>i. [Call example_input, Warn (warn_message (2000 * 2 ^ i)), Sleep (2000 * 2 ^ i)])
                [0..<3]),
       Threw (NewError exhausted_message))"
    using detectKpis_backoff [OF h, of example_input] stop by simp
  show ?thesis
    unfolding run
    by (simp add: upt_0_3 exhausted_message_def warn_message_2000 warn_message_4000 warn_message_8000)
qed

text \<open>
  Claim C10 says that a \<^verbatim>\<open>message\<close> that is not a string makes the test of line 78 throw a
  TypeError. That holds for every such message but one kind: an array has an
  \<^verbatim>\<open>includes\<close> method of its own, which looks for the needle among the elements. With
  the array \<^verbatim>\<open>['429 Too Many Requests']\<close> as message the test is true, nothing is thrown
  by it, and the error is retried as a rate-limit error:
\<close>

theorem array_message_counterexample:
  "get_message array_message_error = Inr (JArr [JStr ''429 Too Many Requests''])
   \<and> is_rate_limit array_message_error = Inr True
   \<and> always_array_message 0 = Rejects array_message_error
   \<and> snd (detectKpis always_array_message example_input) =
        Threw (NewError ''Failed to detect KPIs after multiple retries due to rate limiting.'')"
proof -
  have h: "\<forall>i<3. \<exists>error. always_array_message i = Rejects error \<and> is_rate_limit error = Inr True"
    by (simp add: always_array_message_def array_message_error_classified)
  have stop: "flow_loop always_array_message example_input 3 \<lparr>retries = 3, delay = 2000 * 2 ^ 3\<rparr> =
      ([], Threw (NewError exhausted_message))"
    by (simp add: flow_loop_exhausted maxRetries_def)
  have "snd (detectKpis always_array_message example_input) = Threw (NewError exhausted_message)"
    using detectKpis_backoff [OF h, of example_input] stop by simp
  moreover have "always_array_message 0 = Rejects array_message_error"
    by (simp add: always_array_message_def)
  moreover have "get_message array_message_error = Inr (JArr [JStr ''429 Too Many Requests''])"
    by (simp add: array_message_error_def)
  ultimately show ?thesis
    by (simp add: array_message_error_classified exhausted_message_def)
qed

text \<open>
  Claim C10, amended. If a caught error's \<^verbatim>\<open>message\<close> is neither a string nor an array
  (it is absent, \<^verbatim>\<open>null\<close>, a boolean, a number or a plain object, one that holds data
  only and so has no \<^verbatim>\<open>includes\<close> method), the test of line 78
  throws a TypeError inside the catch block. On whichever attempt that happens, the caller
  receives the TypeError and not the error the external call threw; nothing is logged or
  waited for after the failing call.
\<close>

theorem message_without_includes_throws:
  assumes "k < 3"
    and "\<forall>i<k. \<exists>e. ext i = Rejects e \<and> is_rate_limit e = Inr True"
    and "ext k = Rejects error"
    and "get_message error = Inr m"
    and "\<forall>s. m \<noteq> JStr s"
    and "\<forall>xs. m \<noteq> JArr xs"
  shows "is_rate_limit error = Inl TypeError
         \<and> detectKpis ext input =
             (concat (map (\<lambda>i. [Call input, Warn (warn_message (2000 * 2 ^ i)), Sleep (2000 * 2 ^ i)])
                       [0..<k]) @ [Call input],
              Threw TypeError)
         \<and> snd (detectKpis ext input) \<noteq> Threw (Thrown error)"
proof -
  have c: "is_rate_limit error = Inl TypeError"
    using assms(4,5,6) by (cases m) (simp_all add: is_rate_limit_def)
  have "flow_loop ext input k \<lparr>retries = k, delay = 2000 * 2 ^ k\<rparr> = ([Call input], Threw TypeError)"
    using assms(1,3) c by (simp add: flow_loop_classification_throws maxRetries_def)
  then have "detectKpis ext input =
             (concat (map (\<lambda>i. [Call input, Warn (warn_message (2000 * 2 ^ i)), Sleep (2000 * 2 ^ i)])
                       [0..<k]) @ [Call input],
              Threw TypeError)"
    using detectKpis_backoff [OF assms(2), of input] assms(1) by simp
  with c show ?thesis by simp
qed

text \<open>A rate-limit failure, then an error object that has no \<^verbatim>\<open>message\<close> at all.\<close>

theorem message_without_includes_throws_witness:
  "(1::nat) < 3
   \<and> rate_limit_then_messageless 0 = Rejects rate_limit_error
   \<and> is_rate_limit rate_limit_error = Inr True
   \<and> rate_limit_then_messageless 1 = Rejects messageless_error
   \<and> get_message messageless_error = Inr JUndefined
   \<and> is_rate_limit messageless_error = Inl TypeError
   \<and> detectKpis rate_limit_then_messageless example_input =
        ([Call example_input, Warn ''Rate limit exceeded. Retrying in 2 seconds...'', Sleep 2000,
          Call example_input],
         Threw TypeError)
   \<and> snd (detectKpis rate_limit_then_messageless example_input) \<noteq> Threw (Thrown messageless_error)"
proof -
  have h1: "(1::nat) < 3" by simp
  have e: "rate_limit_then_messageless 0 = Rejects rate_limit_error"
    by (simp add: rate_limit_then_messageless_def)
  have h2: "\<forall>i<1. \<exists>e. rate_limit_then_messageless i = Rejects e \<and> is_rate_limit e = Inr True"
    by (simp add: e rate_limit_error_classified)
  have h3: "rate_limit_then_messageless 1 = Rejects messageless_error"
    by (simp add: rate_limit_then_messageless_def)
  have h4: "get_message messageless_error = Inr JUndefined"
    by (simp add: messageless_error_def)
  have h5: "\<forall>s. JUndefined \<noteq> JStr s" by simp
  have h6: "\<forall>xs. JUndefined \<noteq> JArr xs" by simp
  show ?thesis
    using message_without_includes_throws
        [where ext = rate_limit_then_messageless and input = example_input, OF h1 h2 h3 h4 h5 h6]
      e h3 h4
    by (simp add: rate_limit_error_classified warn_message_2000)
qed

section \<open>The prompt\<close>

lemma array_text_example: "array_text example_records = Inr ''[object Object],[object Object]''"
  by (simp add: example_records_def)

lemma array_text_other: "array_text other_records = Inr ''[object Object],[object Object]''"
  by (simp add: other_records_def)

text \<open>
  The shape of the prompt whenever the records can be converted to text \<open>t\<close>: the fixed
  instructions, the language note when and only when the input has a language that is not the
  empty string, and the survey data section holding \<open>t\<close>.
\<close>

lemma prompt_text_shape:
  assumes "array_text (surveyData input) = Inr t"
  shows "detectKpisPrompt_text esc input =
     Inr (preamble_text @
          (case language input of
             None \<Rightarrow> []
           | Some l \<Rightarrow>
               if l = [] then []
               else ''  Note: The survey data is in '' @ esc l @
                    '' language. Please consider language-specific nuances when identifying KPIs. Column names and values may be in '' @
                    esc l @ ''.'' @ NL) @
          NL @ ''  Survey Data: '' @ t @ NL @ ''  '')"
  using assms
  by (simp add: detectKpisPrompt_text_def detectKpisPrompt_template_def split: option.split)

lemma prompt_text_fr:
  "detectKpisPrompt_text (\<lambda>s. s) example_input_fr =
     Inr (preamble_text @
          ''  Note: The survey data is in fr language. Please consider language-specific nuances when identifying KPIs. Column names and values may be in fr.'' @
          NL @ NL @ ''  Survey Data: [object Object],[object Object]'' @ NL @ ''  '')"
  using prompt_text_shape [of example_input_fr "''[object Object],[object Object]''" "\<lambda>s. s"]
  by (simp add: example_input_fr_def array_text_example)

lemma prompt_text_toString: "detectKpisPrompt_text esc toString_input = Inl TypeError"
  by (simp add: detectKpisPrompt_text_def detectKpisPrompt_template_def toString_input_def)

text \<open>
  Claim C8 says that the prompt embeds the serialized survey records. The template writes
  them with \<^verbatim>\<open>{{{surveyData}}}\<close>, which converts the array to a string as JavaScript does:
  every record becomes \<^verbatim>\<open>[object Object]\<close>. For the records of the specification's
  example the prompt holds no column name and no value, and it is the very prompt obtained
  for two quite different records.
\<close>

theorem prompt_holds_no_record_content:
  "detectKpisPrompt_text esc example_input =
     Inr (preamble_text @ NL @ ''  Survey Data: [object Object],[object Object]'' @ NL @ ''  '')
   \<and> detectKpisPrompt_text esc other_input = detectKpisPrompt_text esc example_input
   \<and> surveyData other_input \<noteq> surveyData example_input"
  using prompt_text_shape [of example_input "''[object Object],[object Object]''" esc]
    prompt_text_shape [of other_input "''[object Object],[object Object]''" esc]
  by (simp add: example_input_def other_input_def array_text_example array_text_other
      example_records_def other_records_def)

end
